theory Spec2Isabelle
  imports Complex_Main
begin

section \<open>Values received from the analysis endpoint\<close>

text \<open>
  \<^verbatim>\<open>response.data\<close> is whatever JSON the endpoint answered, so the model keeps the
  JavaScript value as it is. Numbers are exact rationals here: the rounding of IEEE
  doubles, \<^verbatim>\<open>NaN\<close> and the infinities are outside the model. An object is the list of its
  own properties after parsing (each key once).
\<close>

datatype jsval =
    Undefined
  | Null
  | Bool bool
  | Num rat
  | Str string
  | Arr "jsval list"
  | Obj "(string \<times> jsval) list"

text \<open>
  \<^verbatim>\<open>data?.key\<close>: \<^verbatim>\<open>undefined\<close> when \<^verbatim>\<open>data\<close> is \<^verbatim>\<open>null\<close> or \<^verbatim>\<open>undefined\<close>, the property
  otherwise. Of the values of the model only an object can own one of the three
  properties that \<^verbatim>\<open>sendFrame\<close> reads.
\<close>

fun optChain :: "jsval \<Rightarrow> string \<Rightarrow> jsval" where
  "optChain (Obj kvs) k = (case map_of kvs k of None \<Rightarrow> Undefined | Some v \<Rightarrow> v)"
| "optChain _ k = Undefined"

text \<open>\<^verbatim>\<open>a ?? b\<close>: the right operand only when the left one is \<^verbatim>\<open>null\<close> or \<^verbatim>\<open>undefined\<close>.\<close>

fun nullish :: "jsval \<Rightarrow> jsval \<Rightarrow> jsval" where
  "nullish Undefined b = b"
| "nullish Null b = b"
| "nullish a b = a"

text \<open>JavaScript truthiness, and \<^verbatim>\<open>a || b\<close>.\<close>

fun truthy :: "jsval \<Rightarrow> bool" where
  "truthy Undefined = False"
| "truthy Null = False"
| "truthy (Bool b) = b"
| "truthy (Num n) = (n \<noteq> 0)"
| "truthy (Str s) = (s \<noteq> [])"
| "truthy (Arr xs) = True"
| "truthy (Obj kvs) = True"

definition jsOr :: "jsval \<Rightarrow> jsval \<Rightarrow> jsval" where
  "jsOr a b = (if truthy a then a else b)"

section \<open>The measurement record of \<^verbatim>\<open>sendFrame\<close>\<close>

record safeData =
  alignment_offset_pixels :: jsval
  alignment_offset_mm :: jsval
  status :: jsval
  timestamp :: rat

text \<open>The object literal \<^verbatim>\<open>safeData\<close> built from \<^verbatim>\<open>response.data\<close> and the timestamp.\<close>

definition mkSafeData :: "jsval \<Rightarrow> rat \<Rightarrow> safeData" where
  "mkSafeData rdata ts =
     \<lparr> alignment_offset_pixels = nullish (optChain rdata ''alignment_offset_pixels'') (Num 0),
       alignment_offset_mm = nullish (optChain rdata ''alignment_offset_mm'') (Num 0),
       status = nullish (optChain rdata ''status'') (Str ''UNKNOWN''),
       timestamp = ts \<rparr>"

text \<open>
  A field is missing when reading it gave \<^verbatim>\<open>undefined\<close> or \<^verbatim>\<open>null\<close>; a record is
  populated when none of its three fields from the response is.
\<close>

definition missing :: "jsval \<Rightarrow> bool" where
  "missing v = (v = Undefined \<or> v = Null)"

definition populated :: "safeData \<Rightarrow> bool" where
  "populated d =
     (\<not> missing (alignment_offset_pixels d) \<and> \<not> missing (alignment_offset_mm d) \<and>
      \<not> missing (status d))"

text \<open>
  The results panel puts \<^verbatim>\<open>{result.alignment_offset_mm}\<close> and \<^verbatim>\<open>{result.status}\<close>, and
  the same two fields of every history item, into the JSX as children. React renders a
  string or a number as text, renders nothing for a boolean, \<^verbatim>\<open>null\<close> or \<^verbatim>\<open>undefined\<close>,
  renders an array child by child, and throws on a plain object ("Objects are not valid
  as a React child"), which takes the whole component down.
\<close>

fun validChild :: "jsval \<Rightarrow> bool" where
  "validChild (Obj kvs) = False"
| "validChild (Arr xs) = list_all validChild xs"
| "validChild v = True"

datatype render_error = ObjectAsChild

definition renderRecord :: "safeData \<Rightarrow> render_error + unit" where
  "renderRecord d =
     (if validChild (alignment_offset_mm d) \<and> validChild (status d) then Inr ()
      else Inl ObjectAsChild)"

text \<open>The labels the endpoint's contract names.\<close>

definition recognized :: "jsval \<Rightarrow> bool" where
  "recognized v = (v = Str ''OK'' \<or> v = Str ''WARNING'' \<or> v = Str ''CRITICAL'')"

section \<open>The analysis history\<close>

text \<open>
  The updater given to \<^verbatim>\<open>setAnalysisHistory\<close>:
  \<^verbatim>\<open>prev => [safeData, ...prev].slice(0, 20)\<close>.
\<close>

definition pushHistory :: "'a \<Rightarrow> 'a list \<Rightarrow> 'a list" where
  "pushHistory d prev = take 20 (d # prev)"

text \<open>A run of successful pushes, the oldest record first.\<close>

fun pushAll :: "'a list \<Rightarrow> 'a list \<Rightarrow> 'a list" where
  "pushAll [] h = h"
| "pushAll (d # ds) h = pushAll ds (pushHistory d h)"

section \<open>The overlay\<close>

text \<open>The decoded image \<^verbatim>\<open>img\<close> of \<^verbatim>\<open>drawOverlay\<close>: its intrinsic size.\<close>

record frame =
  img_width :: nat
  img_height :: nat

text \<open>
  What the \<^verbatim>\<open>onload\<close> callback of \<^verbatim>\<open>drawOverlay\<close> leaves on the canvas: the dashed
  reference line, the solid measured line, and the readout drawn from \<^verbatim>\<open>data\<close>.
\<close>

record overlay =
  centerX :: rat
  centerStroke :: string
  detectedX :: "rat option"
  detectedStroke :: string
  textFill :: string
  readout :: safeData

record canvas =
  canvas_width :: nat
  canvas_height :: nat
  painted :: "overlay option"

text \<open>
  \<^verbatim>\<open>centerX + v\<close> for a number \<^verbatim>\<open>centerX\<close>. With a number, a boolean or \<^verbatim>\<open>null\<close> on the
  right the sum is a number. With \<^verbatim>\<open>undefined\<close> it is \<^verbatim>\<open>NaN\<close>, and with a string, an
  array or an object it is a string concatenation: these are no coordinates of the
  model, and the result is \<open>None\<close>.
\<close>

fun numPlus :: "rat \<Rightarrow> jsval \<Rightarrow> rat option" where
  "numPlus a (Num b) = Some (a + b)"
| "numPlus a (Bool b) = Some (a + (if b then 1 else 0))"
| "numPlus a Null = Some a"
| "numPlus a _ = None"

text \<open>The three-way choice of \<^verbatim>\<open>ctx.strokeStyle\<close> for the detected line.\<close>

definition lineColor :: "jsval \<Rightarrow> string" where
  "lineColor st =
     (if st = Str ''CRITICAL'' then ''red''
      else if st = Str ''WARNING'' then ''orange''
      else ''lime'')"

text \<open>
  The body of \<^verbatim>\<open>img.onload\<close>. Assigning \<^verbatim>\<open>canvas.width\<close> clears the canvas, so
  what was painted before is gone.
\<close>

definition drawOverlay_onload :: "safeData \<Rightarrow> frame \<Rightarrow> canvas \<Rightarrow> canvas" where
  "drawOverlay_onload d img c =
     (let c1 = c\<lparr>canvas_width := img_width img, canvas_height := img_height img\<rparr>;
          cx = rat_of_nat (canvas_width c1) / 2;
          dx = numPlus cx (jsOr (alignment_offset_pixels d) (Num 0))
      in c1\<lparr>painted := Some \<lparr> centerX = cx, centerStroke = ''white'',
                                detectedX = dx, detectedStroke = lineColor (status d),
                                textFill = ''white'', readout = d \<rparr>\<rparr>)"

definition getStatusColor :: "jsval \<Rightarrow> string" where
  "getStatusColor st =
     (if st = Str ''CRITICAL'' then ''#ff4444''
      else if st = Str ''WARNING'' then ''#ffaa00''
      else if st = Str ''OK'' then ''#00ff88''
      else ''#888888'')"

text \<open>The colour classes of the spec, for the named colours and hex codes the code uses.\<close>

datatype color_class = Green | Amber | Red | Neutral

definition classOf :: "string \<Rightarrow> color_class option" where
  "classOf c =
     (if c = ''lime'' \<or> c = ''#00ff88'' then Some Green
      else if c = ''orange'' \<or> c = ''#ffaa00'' then Some Amber
      else if c = ''red'' \<or> c = ''#ff4444'' then Some Red
      else if c = ''gray'' \<or> c = ''#888888'' then Some Neutral
      else None)"

section \<open>The component's state\<close>

datatype input_mode = Upload | Video | Webcam

text \<open>
  The video element behind \<^verbatim>\<open>videoRef.current\<close>. A media stream is the list of its
  tracks, each a number; which tracks are live is kept in the state (\<open>liveTracks\<close>),
  since a track outlives the element that shows it.
\<close>

record video_el =
  paused :: bool
  srcObject :: "nat list option"
  currentTime :: rat

text \<open>The three callbacks handed to \<^verbatim>\<open>setInterval\<close>: two in the effect, one in
  \<^verbatim>\<open>startFrameCapture\<close>.\<close>

datatype ticker = WebcamTick | VideoTick | PlayTick

datatype transport_error = NetworkError | Timeout | BadStatus nat

text \<open>Why \<^verbatim>\<open>getUserMedia\<close> rejects: permission denied, or no camera.\<close>

datatype media_error = NotAllowed | NotFound

text \<open>
  The \<^verbatim>\<open>useState\<close> cells and refs of \<^verbatim>\<open>App\<close>, and what the handlers reach outside
  the component: the running intervals (with the next id), the \<^verbatim>\<open>interval\<close> variable
  that the effect's last cleanup closure holds, the live media tracks, the alerts
  shown, and the number of frames posted to the endpoint.
\<close>

record app =
  mode :: input_mode
  videoFile :: "string option"
  videoUrl :: "string option"
  result :: "safeData option"
  streaming :: bool
  loading :: bool
  analysisHistory :: "safeData list"
  isPlaying :: bool
  videoRef :: "video_el option"
  canvasRef :: "canvas option"
  intervals :: "(nat \<times> ticker) list"
  nextInterval :: nat
  effectInterval :: "nat option"
  liveTracks :: "nat set"
  alerts :: "string list"
  posted :: nat

text \<open>The state after the first render: the canvas is mounted, no video element is.\<close>

definition initialApp :: app where
  "initialApp =
     \<lparr> mode = Upload, videoFile = None, videoUrl = None, result = None,
       streaming = False, loading = False, analysisHistory = [], isPlaying = False,
       videoRef = None,
       canvasRef = Some \<lparr> canvas_width = 300, canvas_height = 150, painted = None \<rparr>,
       intervals = [], nextInterval = 1, effectInterval = None,
       liveTracks = {}, alerts = [], posted = 0 \<rparr>"

section \<open>\<^verbatim>\<open>sendFrame\<close>\<close>

text \<open>
  \<^verbatim>\<open>drawOverlay\<close>: with no canvas mounted \<^verbatim>\<open>canvas.getContext\<close> throws, which the
  \<^verbatim>\<open>try\<close> of \<^verbatim>\<open>sendFrame\<close> catches; nothing is painted. Otherwise the image is
  decoded and \<^verbatim>\<open>onload\<close> paints; \<open>None\<close> is an image that never loads.
\<close>

definition drawOverlay :: "safeData \<Rightarrow> frame option \<Rightarrow> app \<Rightarrow> app" where
  "drawOverlay d img s =
     (case canvasRef s of
        None \<Rightarrow> s
      | Some c \<Rightarrow>
          (case img of
             None \<Rightarrow> s
           | Some f \<Rightarrow> s\<lparr>canvasRef := Some (drawOverlay_onload d f c)\<rparr>))"

text \<open>
  \<^verbatim>\<open>sendFrame\<close> up to its \<^verbatim>\<open>await\<close>: the loading flag is raised and the frame is
  posted.
\<close>

definition sendFrame_begin :: "app \<Rightarrow> app" where
  "sendFrame_begin s = s\<lparr>loading := True, posted := posted s + 1\<rparr>"

text \<open>
  \<^verbatim>\<open>sendFrame\<close> from the \<^verbatim>\<open>await\<close> on. \<open>Inl\<close> is a rejected request (network error,
  timeout, or a status outside 2xx, which axios rejects); \<open>Inr\<close> carries
  \<^verbatim>\<open>response.data\<close>. The frame and the timestamp are those of the call.
\<close>

definition sendFrame_resume ::
  "transport_error + jsval \<Rightarrow> frame option \<Rightarrow> rat \<Rightarrow> app \<Rightarrow> app" where
  "sendFrame_resume outcome img ts s =
     (case outcome of
        Inl err \<Rightarrow> s\<lparr>loading := False\<rparr>
      | Inr rdata \<Rightarrow>
          (let d = mkSafeData rdata ts;
               s1 = s\<lparr>result := Some d\<rparr>;
               s2 = s1\<lparr>analysisHistory := pushHistory d (analysisHistory s1)\<rparr>;
               s3 = drawOverlay d img s2
           in s3\<lparr>loading := False\<rparr>))"

text \<open>One call of \<^verbatim>\<open>sendFrame\<close> with nothing interleaved at its \<^verbatim>\<open>await\<close>.\<close>

definition sendFrame ::
  "transport_error + jsval \<Rightarrow> frame option \<Rightarrow> rat \<Rightarrow> app \<Rightarrow> app" where
  "sendFrame outcome img ts s = sendFrame_resume outcome img ts (sendFrame_begin s)"

section \<open>Timers and the sampling effect\<close>

definition setInterval :: "ticker \<Rightarrow> app \<Rightarrow> nat \<times> app" where
  "setInterval cb s =
     (nextInterval s,
      s\<lparr>intervals := intervals s @ [(nextInterval s, cb)],
        nextInterval := nextInterval s + 1\<rparr>)"

text \<open>\<^verbatim>\<open>clearInterval(undefined)\<close>, or an id that is no longer running, does nothing.\<close>

definition clearInterval :: "nat option \<Rightarrow> app \<Rightarrow> app" where
  "clearInterval i s =
     (case i of
        None \<Rightarrow> s
      | Some n \<Rightarrow> s\<lparr>intervals := filter (\<lambda>(k, cb). k \<noteq> n) (intervals s)\<rparr>)"

text \<open>
  \<^verbatim>\<open>captureAndAnalyzeFrame\<close>: with no video element it returns at once; otherwise the
  current frame is drawn to a fresh canvas and handed to \<^verbatim>\<open>sendFrame\<close>, whose answer
  arrives later.
\<close>

definition captureAndAnalyzeFrame :: "app \<Rightarrow> app" where
  "captureAndAnalyzeFrame s =
     (case videoRef s of None \<Rightarrow> s | Some v \<Rightarrow> sendFrame_begin s)"

text \<open>
  One firing of an interval's callback. The video callback of the effect reads
  \<^verbatim>\<open>videoRef.current.paused\<close> unguarded: with no element it throws inside the timer
  and nothing changes.
\<close>

fun tick :: "ticker \<Rightarrow> app \<Rightarrow> app" where
  "tick WebcamTick s = captureAndAnalyzeFrame s"
| "tick VideoTick s =
     (case videoRef s of
        None \<Rightarrow> s
      | Some v \<Rightarrow> if \<not> paused v then captureAndAnalyzeFrame s else s)"
| "tick PlayTick s =
     (case videoRef s of
        None \<Rightarrow> s
      | Some v \<Rightarrow> if \<not> paused v then captureAndAnalyzeFrame s else s)"

text \<open>
  One cadence period (1000 ms) goes by: every running interval fires once, in the
  order of creation. \<open>advanceBy n\<close> is \<open>n\<close> periods.
\<close>

definition advance :: "app \<Rightarrow> app" where
  "advance s = fold (\<lambda>(k, cb). tick cb) (intervals s) s"

fun advanceBy :: "nat \<Rightarrow> app \<Rightarrow> app" where
  "advanceBy 0 s = s"
| "advanceBy (Suc n) s = advanceBy n (advance s)"

text \<open>
  The effect with dependencies \<^verbatim>\<open>[mode, streaming, isPlaying]\<close>: its cleanup clears the
  interval of the previous run, its body starts the next one.
\<close>

definition effectCleanup :: "app \<Rightarrow> app" where
  "effectCleanup s = clearInterval (effectInterval s) s"

definition samplingEffect :: "app \<Rightarrow> app" where
  "samplingEffect s =
     (if mode s = Webcam \<and> streaming s then
        (let (i, s1) = setInterval WebcamTick s in s1\<lparr>effectInterval := Some i\<rparr>)
      else if mode s = Video \<and> isPlaying s \<and> videoRef s \<noteq> None then
        (let (i, s1) = setInterval VideoTick s in s1\<lparr>effectInterval := Some i\<rparr>)
      else s\<lparr>effectInterval := None\<rparr>)"

definition deps :: "app \<Rightarrow> input_mode \<times> bool \<times> bool" where
  "deps s = (mode s, streaming s, isPlaying s)"

text \<open>
  The condition under which the JSX renders the file video element, the one that
  carries \<^verbatim>\<open>onPlay\<close> and \<^verbatim>\<open>onPause\<close>: the mode is video or upload and a video is loaded.
\<close>

definition fileVideoShown :: "app \<Rightarrow> bool" where
  "fileVideoShown s = ((mode s = Video \<or> mode s = Upload) \<and> videoUrl s \<noteq> None)"

text \<open>
  The JSX has two video elements with \<^verbatim>\<open>ref={videoRef}\<close>, at two places of the same
  parent: the file video, and the webcam video, rendered when the mode is webcam. They
  are never rendered together. An element that stays rendered keeps its identity and
  \<^verbatim>\<open>videoRef.current\<close> keeps pointing at it; one that is rendered anew is a fresh
  element, paused and with no \<^verbatim>\<open>srcObject\<close>; when the one that was rendered is rendered
  no more and the other is not either, the ref is \<^verbatim>\<open>null\<close>. So a switch between the file
  video and the webcam video always ends with a fresh element behind the ref.
\<close>

definition freshVideo :: video_el where
  "freshVideo = \<lparr> paused = True, srcObject = None, currentTime = 0 \<rparr>"

definition rebind :: "app \<Rightarrow> app \<Rightarrow> app" where
  "rebind old s =
     (if fileVideoShown s then
        (if fileVideoShown old then s else s\<lparr>videoRef := Some freshVideo\<rparr>)
      else if mode s = Webcam then
        (if mode old = Webcam then s else s\<lparr>videoRef := Some freshVideo\<rparr>)
      else if fileVideoShown old \<or> mode old = Webcam then s\<lparr>videoRef := None\<rparr>
      else s)"

text \<open>
  The render after a handler, \<open>old\<close> being the state of the render before: the refs are
  bound first, then React runs the cleanup and the effect again exactly when a
  dependency differs.
\<close>

definition commit :: "app \<Rightarrow> app \<Rightarrow> app" where
  "commit old s =
     (let s1 = rebind old s
      in if deps s1 = deps old then s1 else samplingEffect (effectCleanup s1))"

section \<open>Handlers\<close>

text \<open>
  \<^verbatim>\<open>startFrameCapture\<close> starts an interval and returns a function that would clear it;
  \<^verbatim>\<open>handleVideoPlay\<close>, its only caller, drops that function, so the model returns the
  state alone.
\<close>

definition startFrameCapture :: "app \<Rightarrow> app" where
  "startFrameCapture s =
     (case videoRef s of None \<Rightarrow> s | Some v \<Rightarrow> snd (setInterval PlayTick s))"

definition handleVideoPlay :: "app \<Rightarrow> app" where
  "handleVideoPlay s = startFrameCapture (s\<lparr>isPlaying := True\<rparr>)"

definition handleVideoPause :: "app \<Rightarrow> app" where
  "handleVideoPause s = s\<lparr>isPlaying := False\<rparr>"

text \<open>
  \<^verbatim>\<open>startWebcam\<close>, given what \<^verbatim>\<open>getUserMedia\<close> did: \<open>Inl\<close> is a rejection (permission
  denied, no device), \<open>Inr\<close> the stream, whose tracks are live from then on. With the
  stream in hand, a missing video element makes the assignment to
  \<^verbatim>\<open>videoRef.current.srcObject\<close> throw, which ends in the same \<^verbatim>\<open>catch\<close>.
\<close>

definition startWebcam :: "media_error + nat list \<Rightarrow> app \<Rightarrow> app" where
  "startWebcam got s =
     (case got of
        Inl err \<Rightarrow> s\<lparr>alerts := alerts s @ [''Cannot access webcam'']\<rparr>
      | Inr stream \<Rightarrow>
          (let s0 = s\<lparr>liveTracks := liveTracks s \<union> set stream\<rparr>
           in case videoRef s0 of
                None \<Rightarrow> s0\<lparr>alerts := alerts s0 @ [''Cannot access webcam'']\<rparr>
              | Some v \<Rightarrow>
                  s0\<lparr>videoRef := Some (v\<lparr>srcObject := Some stream, paused := False\<rparr>),
                     streaming := True,
                     mode := Webcam\<rparr>))"

text \<open>\<^verbatim>\<open>track.stop()\<close>: the track is live no more; on an ended track it does nothing.\<close>

definition stopTrack :: "nat \<Rightarrow> app \<Rightarrow> app" where
  "stopTrack t s = s\<lparr>liveTracks := liveTracks s - {t}\<rparr>"

definition stopWebcam :: "app \<Rightarrow> app" where
  "stopWebcam s =
     (let s1 = (case videoRef s of
                  None \<Rightarrow> s
                | Some v \<Rightarrow>
                    (case srcObject v of
                       None \<Rightarrow> s
                     | Some stream \<Rightarrow> fold stopTrack stream s))
      in s1\<lparr>streaming := False, mode := Upload\<rparr>)"

text \<open>
  \<^verbatim>\<open>handleVideoChange\<close> for the chosen file: \<open>None\<close> is an empty selection, otherwise
  the file's name, whether its type starts with \<^verbatim>\<open>video/\<close>, and the object URL made for
  it. The \<^verbatim>\<open>src\<close> attribute that the handler also assigns is not part of the state, nor
  are the revoked URL and the emptied file input of \<^verbatim>\<open>resetVideo\<close>.
\<close>

definition handleVideoChange :: "(string \<times> bool \<times> string) option \<Rightarrow> app \<Rightarrow> app" where
  "handleVideoChange file s =
     (case file of
        None \<Rightarrow> s
      | Some (name, isVideo, url) \<Rightarrow>
          if \<not> isVideo then s\<lparr>alerts := alerts s @ [''Please select a valid video file'']\<rparr>
          else s\<lparr>videoFile := Some name, videoUrl := Some url,
                 result := None, analysisHistory := []\<rparr>)"

definition resetVideo :: "app \<Rightarrow> app" where
  "resetVideo s =
     s\<lparr>videoFile := None, videoUrl := None, result := None,
       analysisHistory := [], isPlaying := False\<rparr>"

section \<open>Events\<close>

text \<open>
  What can happen to the component. A handler runs, then the render commits. The user
  starts or pauses the file video through its controls (the element's \<^verbatim>\<open>paused\<close> flag
  changes and \<^verbatim>\<open>onPlay\<close>/\<open>onPause\<close> run); the two mode buttons call \<^verbatim>\<open>setMode\<close>; a
  response of an earlier \<^verbatim>\<open>sendFrame\<close> arrives; a cadence period goes by. \<open>Rebind\<close> puts
  any element, or none, behind \<^verbatim>\<open>videoRef\<close>: no handler does that, and the event is there
  so that what holds of every run holds however the element behaves by itself (its
  time goes on, its playback ends).
\<close>

datatype event =
    ClickUpload
  | ClickVideo
  | ClickWebcam "media_error + nat list"
  | ClickStopWebcam
  | ChooseImage
  | ChooseVideo "(string \<times> bool \<times> string) option"
  | ClickReset
  | PlayVideo
  | PauseVideo
  | Response "transport_error + jsval" "frame option" rat
  | Period
  | Rebind "video_el option"

definition setPaused :: "bool \<Rightarrow> app \<Rightarrow> app" where
  "setPaused b s = s\<lparr>videoRef := map_option (\<lambda>v. v\<lparr>paused := b\<rparr>) (videoRef s)\<rparr>"

fun handle :: "event \<Rightarrow> app \<Rightarrow> app" where
  "handle ClickUpload s = s\<lparr>mode := Upload\<rparr>"
| "handle ClickVideo s = s\<lparr>mode := Video\<rparr>"
| "handle (ClickWebcam got) s = startWebcam got s"
| "handle ClickStopWebcam s = stopWebcam s"
| "handle ChooseImage s = sendFrame_begin s"
| "handle (ChooseVideo file) s = handleVideoChange file s"
| "handle ClickReset s = resetVideo s"
| "handle PlayVideo s = handleVideoPlay (setPaused False s)"
| "handle PauseVideo s = handleVideoPause (setPaused True s)"
| "handle (Response outcome img ts) s = sendFrame_resume outcome img ts s"
| "handle Period s = advance s"
| "handle (Rebind el) s = s\<lparr>videoRef := el\<rparr>"

definition step :: "event \<Rightarrow> app \<Rightarrow> app" where
  "step e s = commit s (handle e s)"

fun run :: "event list \<Rightarrow> app \<Rightarrow> app" where
  "run [] s = s"
| "run (e # es) s = run es (step e s)"

text \<open>The result shown and the history agree: both empty, or the result is the newest entry.\<close>

definition linked :: "app \<Rightarrow> bool" where
  "linked s =
     (case result s of
        None \<Rightarrow> analysisHistory s = []
      | Some r \<Rightarrow> (case analysisHistory s of [] \<Rightarrow> False | h # hs \<Rightarrow> h = r))"

section \<open>Helper facts\<close>

lemma pushHistory_Cons: "pushHistory d h = d # take 19 h"
  by (simp add: pushHistory_def)

lemma length_pushHistory: "length (pushHistory d h) \<le> 20"
  by (simp add: pushHistory_def)

lemma pushAll_take: "ds \<noteq> [] \<Longrightarrow> pushAll ds h = take 20 (rev ds @ h)"
proof (induction ds arbitrary: h)
  case Nil
  then show ?case by simp
next
  case (Cons d ds)
  show ?case
  proof (cases "ds = []")
    case True
    then show ?thesis by (simp add: pushHistory_def)
  next
    case False
    have "pushAll (d # ds) h = take 20 (rev ds @ take 20 (d # h))"
      using Cons.IH [OF False] by (simp add: pushHistory_def)
    also have "\<dots> = take 20 (rev ds @ d # h)"
    proof -
      have "take (20 - length ds) (take 20 (d # h)) = take (20 - length ds) (d # h)"
        by (simp only: take_take) simp
      then show ?thesis
        by (simp only: take_append length_rev)
    qed
    finally show ?thesis by simp
  qed
qed

lemma commit_keeps:
  "result (commit old s) = result s"
  "analysisHistory (commit old s) = analysisHistory s"
  "loading (commit old s) = loading s"
  "canvasRef (commit old s) = canvasRef s"
  "liveTracks (commit old s) = liveTracks s"
  "alerts (commit old s) = alerts s"
  "mode (commit old s) = mode s"
  "streaming (commit old s) = streaming s"
  by (simp_all add: commit_def rebind_def Let_def samplingEffect_def effectCleanup_def
        clearInterval_def setInterval_def split: option.splits)

lemma tick_keeps:
  "result (tick cb s) = result s"
  "analysisHistory (tick cb s) = analysisHistory s"
  by (cases cb; simp add: captureAndAnalyzeFrame_def sendFrame_begin_def split: option.splits)+

lemma fold_tick_keeps:
  "result (fold (\<lambda>(k, cb). tick cb) xs s) = result s \<and>
   analysisHistory (fold (\<lambda>(k, cb). tick cb) xs s) = analysisHistory s"
  by (induction xs arbitrary: s) (auto simp: tick_keeps)

lemma advance_keeps:
  "result (advance s) = result s"
  "analysisHistory (advance s) = analysisHistory s"
  by (simp_all add: advance_def fold_tick_keeps)

lemma fold_stopTrack_keeps:
  "result (fold stopTrack ts s) = result s \<and>
   analysisHistory (fold stopTrack ts s) = analysisHistory s"
  by (induction ts arbitrary: s) (auto simp: stopTrack_def)

lemma drawOverlay_keeps:
  "result (drawOverlay d img s) = result s"
  "analysisHistory (drawOverlay d img s) = analysisHistory s"
  "loading (drawOverlay d img s) = loading s"
  by (simp_all add: drawOverlay_def split: option.splits)

lemma sendFrame_resume_Inr:
  "result (sendFrame_resume (Inr rdata) img ts s) = Some (mkSafeData rdata ts)"
  "analysisHistory (sendFrame_resume (Inr rdata) img ts s) =
     pushHistory (mkSafeData rdata ts) (analysisHistory s)"
  by (simp_all add: sendFrame_resume_def Let_def drawOverlay_keeps)

lemma sendFrame_resume_Inl:
  "sendFrame_resume (Inl err) img ts s = s\<lparr>loading := False\<rparr>"
  by (simp add: sendFrame_resume_def)

text \<open>
  What one handler can do to the pair of result and history: leave both, empty both,
  or set the result to a record and push that same record.
\<close>

lemma handle_footprint:
  "(result (handle e s) = result s \<and> analysisHistory (handle e s) = analysisHistory s) \<or>
   (result (handle e s) = None \<and> analysisHistory (handle e s) = []) \<or>
   (\<exists>d. result (handle e s) = Some d \<and>
        analysisHistory (handle e s) = pushHistory d (analysisHistory s))"
proof (cases e)
  case (ClickWebcam got)
  then show ?thesis
    by (simp add: startWebcam_def Let_def split: sum.splits option.splits)
next
  case ClickStopWebcam
  then show ?thesis
    by (simp add: stopWebcam_def Let_def fold_stopTrack_keeps split: option.splits)
next
  case (ChooseVideo chosen)
  then show ?thesis
    by (simp add: handleVideoChange_def split: option.splits prod.splits)
next
  case (Response outcome img ts)
  then show ?thesis
    by (cases outcome) (simp_all add: sendFrame_resume_Inr sendFrame_resume_Inl)
next
  case Period
  then show ?thesis by (simp add: advance_keeps)
next
  case PlayVideo
  then show ?thesis
    by (simp add: handleVideoPlay_def startFrameCapture_def setInterval_def setPaused_def
          split: option.splits)
qed (simp_all add: sendFrame_begin_def resetVideo_def handleVideoPause_def setPaused_def)

lemma step_footprint:
  "(result (step e s) = result s \<and> analysisHistory (step e s) = analysisHistory s) \<or>
   (result (step e s) = None \<and> analysisHistory (step e s) = []) \<or>
   (\<exists>d. result (step e s) = Some d \<and>
        analysisHistory (step e s) = pushHistory d (analysisHistory s))"
  using handle_footprint [of e s] by (simp add: step_def commit_keeps)

lemma linked_step: "linked s \<Longrightarrow> linked (step e s)"
  using step_footprint [of e s]
  by (auto simp: linked_def pushHistory_Cons split: option.splits list.splits)

lemma linked_run: "linked s \<Longrightarrow> linked (run es s)"
  by (induction es arbitrary: s) (simp_all add: linked_step)

lemma bounded_step:
  "length (analysisHistory s) \<le> 20 \<Longrightarrow> length (analysisHistory (step e s)) \<le> 20"
  using step_footprint [of e s] length_pushHistory by auto

lemma bounded_run:
  "length (analysisHistory s) \<le> 20 \<Longrightarrow> length (analysisHistory (run es s)) \<le> 20"
  by (induction es arbitrary: s) (simp_all add: bounded_step)

section \<open>The history buffer\<close>

text \<open>
  C2. A push puts the new record in front and keeps at most 20 entries, dropping from
  the old end. More than 20 pushes in a row leave exactly the 20 newest records, the
  newest first, whatever the history held before. In every state the component can
  reach, the history holds at most 20 entries.
\<close>

theorem history_capacity:
  "pushHistory d h = d # take 19 h \<and>
   length (pushHistory d h) \<le> 20 \<and>
   (20 < length ds \<longrightarrow>
      pushAll ds h = take 20 (rev ds) \<and> length (pushAll ds h) = 20) \<and>
   length (analysisHistory (run es initialApp)) \<le> 20"
proof -
  have many: "pushAll ds h = take 20 (rev ds) \<and> length (pushAll ds h) = 20"
    if "20 < length ds"
  proof -
    from that have "ds \<noteq> []" by auto
    then have "pushAll ds h = take 20 (rev ds @ h)" by (rule pushAll_take)
    with that show ?thesis by simp
  qed
  have "length (analysisHistory initialApp) \<le> 20" by (simp add: initialApp_def)
  then have "length (analysisHistory (run es initialApp)) \<le> 20" by (rule bounded_run)
  with many show ?thesis by (simp add: pushHistory_Cons length_pushHistory)
qed

theorem history_capacity_witness:
  "20 < length [1, 2, 3, 4, 5, 6, 7, 8, 9, 10, 11, 12, 13, 14, 15, 16, 17, 18, 19, 20, 21 :: nat] \<and>
   pushAll [1, 2, 3, 4, 5, 6, 7, 8, 9, 10, 11, 12, 13, 14, 15, 16, 17, 18, 19, 20, 21 :: nat] [0] =
     [21, 20, 19, 18, 17, 16, 15, 14, 13, 12, 11, 10, 9, 8, 7, 6, 5, 4, 3, 2]"
  using history_capacity
    [of 0 "[0]" "[1, 2, 3, 4, 5, 6, 7, 8, 9, 10, 11, 12, 13, 14, 15, 16, 17, 18, 19, 20, 21 :: nat]"
        "[]"]
  by simp

section \<open>Normalising the response\<close>

text \<open>
  C3, as the claim states it, fails twice. A status that is present but is none of the
  labels OK, WARNING, CRITICAL is not replaced by UNKNOWN: the label FINE is kept. And
  a malformed response does escape as an error: a status that is an object is kept as
  well, and the results panel throws when it renders the record.
\<close>

theorem unrecognized_status_counterexample:
  "\<not> recognized (optChain (Obj [(''status'', Str ''FINE'')]) ''status'') \<and>
   status (mkSafeData (Obj [(''status'', Str ''FINE'')]) 0) \<noteq> Str ''UNKNOWN'' \<and>
   \<not> recognized (optChain (Obj [(''status'', Obj [(''code'', Num 1)])]) ''status'') \<and>
   status (mkSafeData (Obj [(''status'', Obj [(''code'', Num 1)])]) 0) \<noteq> Str ''UNKNOWN'' \<and>
   renderRecord (mkSafeData (Obj [(''status'', Obj [(''code'', Num 1)])]) 0) =
     Inl ObjectAsChild"
  by (simp add: recognized_def mkSafeData_def renderRecord_def)

text \<open>
  C3, amended. For every response body, the record gets 0 for a pixel offset that is
  missing (undefined or null), 0 for a missing millimetre offset and UNKNOWN for a
  missing status; a field that is present is kept as it is, also a status with an
  unrecognised label. So no field of the record is undefined or null. When the
  millimetre offset and the status of the response are missing or are values that
  React renders (strings, numbers, booleans, arrays of these), the record renders
  without an error. Nothing is said of a response that carries a plain object there.
\<close>

theorem mkSafeData_defaults:
  "(missing (optChain rdata ''alignment_offset_pixels'') \<longrightarrow>
      alignment_offset_pixels (mkSafeData rdata ts) = Num 0) \<and>
   (missing (optChain rdata ''alignment_offset_mm'') \<longrightarrow>
      alignment_offset_mm (mkSafeData rdata ts) = Num 0) \<and>
   (missing (optChain rdata ''status'') \<longrightarrow>
      status (mkSafeData rdata ts) = Str ''UNKNOWN'') \<and>
   (\<not> missing (optChain rdata ''alignment_offset_pixels'') \<longrightarrow>
      alignment_offset_pixels (mkSafeData rdata ts) = optChain rdata ''alignment_offset_pixels'') \<and>
   (\<not> missing (optChain rdata ''alignment_offset_mm'') \<longrightarrow>
      alignment_offset_mm (mkSafeData rdata ts) = optChain rdata ''alignment_offset_mm'') \<and>
   (\<not> missing (optChain rdata ''status'') \<longrightarrow>
      status (mkSafeData rdata ts) = optChain rdata ''status'') \<and>
   populated (mkSafeData rdata ts) \<and>
   timestamp (mkSafeData rdata ts) = ts \<and>
   (validChild (optChain rdata ''alignment_offset_mm'') \<and>
    validChild (optChain rdata ''status'') \<longrightarrow>
      renderRecord (mkSafeData rdata ts) = Inr ())"
proof -
  have fill: "nullish v b = (if missing v then b else v)" for v b
    by (cases v) (simp_all add: missing_def)
  have "\<not> missing (Num 0)" "\<not> missing (Str ''UNKNOWN'')"
    by (simp_all add: missing_def)
  then show ?thesis
    by (simp add: mkSafeData_def populated_def renderRecord_def fill)
qed

theorem mkSafeData_defaults_witness:
  "mkSafeData (Obj []) 0 =
     \<lparr> alignment_offset_pixels = Num 0, alignment_offset_mm = Num 0,
       status = Str ''UNKNOWN'', timestamp = 0 \<rparr> \<and>
   renderRecord (mkSafeData (Obj []) 0) = Inr () \<and>
   mkSafeData (Obj [(''alignment_offset_pixels'', Num 12), (''alignment_offset_mm'', Num 3),
                    (''status'', Str ''FINE'')]) 7 =
     \<lparr> alignment_offset_pixels = Num 12, alignment_offset_mm = Num 3,
       status = Str ''FINE'', timestamp = 7 \<rparr> \<and>
   renderRecord
     (mkSafeData (Obj [(''alignment_offset_pixels'', Num 12), (''alignment_offset_mm'', Num 3),
                       (''status'', Str ''FINE'')]) 7) = Inr ()"
  using mkSafeData_defaults [of "Obj []" 0]
    mkSafeData_defaults
      [of "Obj [(''alignment_offset_pixels'', Num 12), (''alignment_offset_mm'', Num 3),
                (''status'', Str ''FINE'')]" 7]
  by (simp add: missing_def)

section \<open>Transport failures\<close>

text \<open>
  C1. A call of \<^verbatim>\<open>sendFrame\<close> whose request is rejected pushes nothing onto the
  history and leaves the result and the canvas as they were; only the loading flag
  changes. After a tick that succeeds with record R and a tick that fails, the result
  is R, R is the newest history entry, and the canvas is the one the first tick left:
  it shows R when a canvas is mounted and the first frame loads.
\<close>

theorem sendFrame_failure_keeps_last:
  "sendFrame_resume (Inl err) img ts s = s\<lparr>loading := False\<rparr> \<and>
   analysisHistory (sendFrame (Inl err) img ts s) = analysisHistory s \<and>
   result (sendFrame (Inl err) img ts s) = result s \<and>
   canvasRef (sendFrame (Inl err) img ts s) = canvasRef s \<and>
   (let R = mkSafeData rdata ts1;
        s1 = sendFrame (Inr rdata) img1 ts1 s;
        s2 = sendFrame (Inl err) img2 ts2 s1
    in result s2 = Some R \<and>
       analysisHistory s2 = R # take 19 (analysisHistory s) \<and>
       canvasRef s2 = canvasRef s1 \<and>
       (\<forall>c f. canvasRef s = Some c \<and> img1 = Some f \<longrightarrow>
          canvasRef s2 = Some (drawOverlay_onload R f c) \<and>
          map_option readout (painted (drawOverlay_onload R f c)) = Some R))"
proof -
  have fail: "sendFrame (Inl err) i t x = x\<lparr>loading := False, posted := posted x + 1\<rparr>"
    for i t x
    by (simp add: sendFrame_def sendFrame_resume_def sendFrame_begin_def)
  have ok: "result (sendFrame (Inr rdata) img1 ts1 s) = Some (mkSafeData rdata ts1)"
    "analysisHistory (sendFrame (Inr rdata) img1 ts1 s) =
       mkSafeData rdata ts1 # take 19 (analysisHistory s)"
    by (simp_all add: sendFrame_def sendFrame_resume_Inr pushHistory_Cons sendFrame_begin_def)
  have paint: "canvasRef (sendFrame (Inr rdata) (Some f) ts1 s) =
      Some (drawOverlay_onload (mkSafeData rdata ts1) f c)"
    if "canvasRef s = Some c" for c f
    using that
    by (simp add: sendFrame_def sendFrame_resume_def sendFrame_begin_def drawOverlay_def
          Let_def)
  have shown: "map_option readout (painted (drawOverlay_onload R f c)) = Some R" for R f c
    by (simp add: drawOverlay_onload_def Let_def)
  show ?thesis
    by (simp add: Let_def fail ok paint shown sendFrame_resume_Inl)
qed

theorem sendFrame_failure_keeps_last_witness:
  "(let R = \<lparr> alignment_offset_pixels = Num 12, alignment_offset_mm = Num 0,
              status = Str ''OK'', timestamp = 0 \<rparr>;
        s2 = sendFrame (Inl Timeout) (Some \<lparr> img_width = 640, img_height = 480 \<rparr>) 0
               (sendFrame (Inr (Obj [(''alignment_offset_pixels'', Num 12),
                                     (''status'', Str ''OK'')]))
                  (Some \<lparr> img_width = 640, img_height = 480 \<rparr>) 0 initialApp)
    in result s2 = Some R \<and> analysisHistory s2 = [R] \<and>
       canvasRef s2 =
         Some (drawOverlay_onload R \<lparr> img_width = 640, img_height = 480 \<rparr>
                 \<lparr> canvas_width = 300, canvas_height = 150, painted = None \<rparr>))"
proof -
  have init: "analysisHistory initialApp = []"
    "canvasRef initialApp =
       Some \<lparr> canvas_width = 300, canvas_height = 150, painted = None \<rparr>"
    by (simp_all add: initialApp_def)
  have R: "mkSafeData (Obj [(''alignment_offset_pixels'', Num 12), (''status'', Str ''OK'')]) 0 =
      \<lparr> alignment_offset_pixels = Num 12, alignment_offset_mm = Num 0,
        status = Str ''OK'', timestamp = 0 \<rparr>"
    by (simp add: mkSafeData_def)
  show ?thesis
    using sendFrame_failure_keeps_last
      [of Timeout "Some \<lparr> img_width = 640, img_height = 480 \<rparr>" 0 initialApp
          "Obj [(''alignment_offset_pixels'', Num 12), (''status'', Str ''OK'')]" 0
          "Some \<lparr> img_width = 640, img_height = 480 \<rparr>"
          "Some \<lparr> img_width = 640, img_height = 480 \<rparr>" 0]
    by (auto simp add: Let_def R init)
qed

section \<open>The loading flag\<close>

text \<open>
  C10. \<^verbatim>\<open>sendFrame\<close> raises the loading flag on entry, and the flag is down when the
  call completes, whether the request succeeded or was rejected, and whatever happened
  to the state while the request was in flight.
\<close>

theorem sendFrame_loading_cleared:
  "loading (sendFrame_begin s) \<and>
   \<not> loading (sendFrame_resume outcome img ts s') \<and>
   \<not> loading (sendFrame outcome img ts s)"
proof -
  have "\<not> loading (sendFrame_resume outcome img ts x)" for x
    by (cases outcome) (simp_all add: sendFrame_resume_def Let_def)
  then show ?thesis
    by (simp add: sendFrame_def sendFrame_begin_def)
qed

section \<open>Result and history\<close>

text \<open>
  C9. When \<^verbatim>\<open>sendFrame\<close> completes with a response, the result is the record built
  from it and that record is the newest history entry. No step of the component gives
  the two different records: a step leaves both, empties both, or sets the result to a
  record and pushes the same record. So in every reachable state the result and the
  history are both empty, or the result is the first entry of the history.
\<close>

theorem result_is_newest_entry:
  "result (sendFrame_resume (Inr rdata) img ts s) = Some (mkSafeData rdata ts) \<and>
   analysisHistory (sendFrame_resume (Inr rdata) img ts s) =
     mkSafeData rdata ts # take 19 (analysisHistory s) \<and>
   linked (sendFrame_resume (Inr rdata) img ts s) \<and>
   ((result (step e s) = result s \<and> analysisHistory (step e s) = analysisHistory s) \<or>
    (result (step e s) = None \<and> analysisHistory (step e s) = []) \<or>
    (\<exists>d. result (step e s) = Some d \<and>
         analysisHistory (step e s) = d # take 19 (analysisHistory s))) \<and>
   (linked s \<longrightarrow> linked (step e s)) \<and>
   linked (run es initialApp)"
proof -
  have "linked initialApp" by (simp add: linked_def initialApp_def)
  then have "linked (run es initialApp)" by (rule linked_run)
  moreover have "linked (sendFrame_resume (Inr rdata) img ts s)"
    by (simp add: linked_def sendFrame_resume_Inr pushHistory_Cons)
  moreover note step_footprint [of e s] linked_step [of s e]
  ultimately show ?thesis
    by (simp add: sendFrame_resume_Inr pushHistory_Cons)
qed

theorem result_is_newest_entry_witness:
  "linked (sendFrame_resume (Inr (Obj [(''status'', Str ''OK'')])) None 0 initialApp) \<and>
   linked (step ClickReset
             (sendFrame_resume (Inr (Obj [(''status'', Str ''OK'')])) None 0 initialApp))"
  using result_is_newest_entry [of "Obj [(''status'', Str ''OK'')]" None 0 initialApp]
    result_is_newest_entry
      [of _ _ _ "sendFrame_resume (Inr (Obj [(''status'', Str ''OK'')])) None 0 initialApp"
          ClickReset]
  by simp

section \<open>The overlay's geometry and colours\<close>

text \<open>
  C5. For every record whose pixel offset is a number, every frame and every canvas,
  the renderer sizes the canvas to the frame (whatever size the canvas had before),
  puts the reference line at half the canvas width, which is half the frame's width,
  and the measured line at the reference line plus the offset.
\<close>

theorem drawOverlay_geometry:
  "alignment_offset_pixels d = Num n \<Longrightarrow>
   canvas_width (drawOverlay_onload d img c) = img_width img \<and>
   canvas_height (drawOverlay_onload d img c) = img_height img \<and>
   drawOverlay_onload d img c = drawOverlay_onload d img c' \<and>
   (\<exists>ov. painted (drawOverlay_onload d img c) = Some ov \<and>
         centerX ov = rat_of_nat (canvas_width (drawOverlay_onload d img c)) / 2 \<and>
         centerX ov = rat_of_nat (img_width img) / 2 \<and>
         detectedX ov = Some (centerX ov + n))"
proof -
  assume off: "alignment_offset_pixels d = Num n"
  have "numPlus a (jsOr (Num n) (Num 0)) = Some (a + n)" for a
    by (simp add: jsOr_def)
  with off show ?thesis
    by (simp add: drawOverlay_onload_def Let_def)
qed

theorem drawOverlay_geometry_witness:
  "(\<exists>ov. painted (drawOverlay_onload
                    \<lparr> alignment_offset_pixels = Num (-12), alignment_offset_mm = Num (-3),
                      status = Str ''WARNING'', timestamp = 2 \<rparr>
                    \<lparr> img_width = 640, img_height = 480 \<rparr>
                    \<lparr> canvas_width = 300, canvas_height = 150, painted = None \<rparr>) = Some ov \<and>
         centerX ov = 320 \<and> detectedX ov = Some 308)"
  using drawOverlay_geometry
    [of "\<lparr> alignment_offset_pixels = Num (-12), alignment_offset_mm = Num (-3),
            status = Str ''WARNING'', timestamp = 2 \<rparr>" "-12"
        "\<lparr> img_width = 640, img_height = 480 \<rparr>"
        "\<lparr> canvas_width = 300, canvas_height = 150, painted = None \<rparr>"
        "\<lparr> canvas_width = 300, canvas_height = 150, painted = None \<rparr>"]
  by auto

text \<open>
  C4, at the input where the code departs from it: a record with status UNKNOWN, the
  default that \<^verbatim>\<open>sendFrame\<close> fills in. The measured line is stroked in lime, the colour
  of OK, while the badge colour of \<^verbatim>\<open>getStatusColor\<close> is the neutral grey. For the
  three recognised labels the line and the badge agree.
\<close>

theorem unknown_status_line_is_lime:
  "status (mkSafeData (Obj []) 0) = Str ''UNKNOWN'' \<and>
   map_option detectedStroke
     (painted (drawOverlay_onload (mkSafeData (Obj []) 0)
                 \<lparr> img_width = 640, img_height = 480 \<rparr>
                 \<lparr> canvas_width = 300, canvas_height = 150, painted = None \<rparr>)) = Some ''lime'' \<and>
   classOf ''lime'' = Some Green \<and>
   lineColor (Str ''OK'') = ''lime'' \<and>
   classOf (getStatusColor (Str ''UNKNOWN'')) = Some Neutral \<and>
   classOf (lineColor (Str ''OK'')) = classOf (getStatusColor (Str ''OK'')) \<and>
   classOf (lineColor (Str ''WARNING'')) = classOf (getStatusColor (Str ''WARNING'')) \<and>
   classOf (lineColor (Str ''CRITICAL'')) = classOf (getStatusColor (Str ''CRITICAL''))"
  by (simp add: mkSafeData_def drawOverlay_onload_def Let_def lineColor_def getStatusColor_def
        classOf_def)

section \<open>The webcam\<close>

text \<open>
  C7. When \<^verbatim>\<open>getUserMedia\<close> rejects, the click on the webcam button changes nothing
  but the alerts: the mode and the streaming flag keep their values (so a mode of
  Upload stays Upload and a streaming flag that was false stays false), no interval is
  started, no track becomes live, and the user is told that the webcam cannot be
  accessed.
\<close>

theorem startWebcam_denied:
  "step (ClickWebcam (Inl err)) s = s\<lparr>alerts := alerts s @ [''Cannot access webcam'']\<rparr> \<and>
   startWebcam (Inl err) s = s\<lparr>alerts := alerts s @ [''Cannot access webcam'']\<rparr> \<and>
   mode (step (ClickWebcam (Inl err)) s) = mode s \<and>
   streaming (step (ClickWebcam (Inl err)) s) = streaming s \<and>
   intervals (step (ClickWebcam (Inl err)) s) = intervals s \<and>
   effectInterval (step (ClickWebcam (Inl err)) s) = effectInterval s \<and>
   liveTracks (step (ClickWebcam (Inl err)) s) = liveTracks s \<and>
   intervals (startWebcam (Inl err) initialApp) = [] \<and>
   mode (startWebcam (Inl err) initialApp) = Upload \<and>
   \<not> streaming (startWebcam (Inl err) initialApp)"
proof -
  have h: "startWebcam (Inl err) x = x\<lparr>alerts := alerts x @ [''Cannot access webcam'']\<rparr>"
    for x
    by (simp add: startWebcam_def)
  have "rebind s (s\<lparr>alerts := a\<rparr>) = s\<lparr>alerts := a\<rparr>" for a
    by (simp add: rebind_def fileVideoShown_def)
  then have "step (ClickWebcam (Inl err)) s = s\<lparr>alerts := alerts s @ [''Cannot access webcam'']\<rparr>"
    by (simp add: step_def h commit_def deps_def Let_def)
  then show ?thesis
    by (simp add: h initialApp_def)
qed

text \<open>
  C8, at an input where the code departs from it. A video is loaded, so that a video
  element exists, and the webcam button is clicked: the camera stream with tracks 1 and
  2 is put on the file video element, and the render that follows the switch to webcam
  mode replaces that element by the fresh webcam element, which holds no stream. The
  click on the stop button then finds no \<^verbatim>\<open>srcObject\<close> and stops no track: the mode is
  Upload and the streaming flag is false, but both tracks are still live. With no video
  loaded there is no element at all: the stream is acquired, the click ends in the alert
  and the mode stays Upload with both tracks live, so webcam mode is entered in no other
  way.
\<close>

theorem stopWebcam_leaves_tracks_live:
  "(let loaded = run [ClickVideo, ChooseVideo (Some (''belt.mp4'', True, ''blob:1''))]
                   initialApp;
        cam = step (ClickWebcam (Inr [1, 2])) loaded;
        off = step ClickStopWebcam cam;
        bare = step (ClickWebcam (Inr [1, 2])) initialApp
    in videoRef loaded = Some freshVideo \<and>
       mode cam = Webcam \<and> streaming cam \<and>
       liveTracks cam = {1, 2} \<and>
       videoRef cam = Some freshVideo \<and>
       srcObject freshVideo = None \<and>
       mode off = Upload \<and> \<not> streaming off \<and>
       liveTracks off = {1, 2} \<and>
       mode bare = Upload \<and> \<not> streaming bare \<and>
       liveTracks bare = {1, 2} \<and>
       alerts bare = [''Cannot access webcam''])"
proof -
  let ?A = "initialApp\<lparr>mode := Video\<rparr>"
  let ?B = "initialApp\<lparr>mode := Video, videoFile := Some ''belt.mp4'',
              videoUrl := Some ''blob:1'', videoRef := Some freshVideo\<rparr>"
  let ?C = "initialApp\<lparr>mode := Webcam, videoFile := Some ''belt.mp4'',
              videoUrl := Some ''blob:1'', videoRef := Some freshVideo, streaming := True,
              liveTracks := {1, 2}, intervals := [(1, WebcamTick)], nextInterval := 2,
              effectInterval := Some 1\<rparr>"
  let ?D = "initialApp\<lparr>mode := Upload, videoFile := Some ''belt.mp4'',
              videoUrl := Some ''blob:1'', videoRef := Some freshVideo, streaming := False,
              liveTracks := {1, 2}, intervals := [], nextInterval := 2,
              effectInterval := None\<rparr>"
  let ?N = "initialApp\<lparr>liveTracks := {1, 2}, alerts := [''Cannot access webcam'']\<rparr>"
  note defs = step_def commit_def deps_def samplingEffect_def effectCleanup_def
    clearInterval_def setInterval_def rebind_def fileVideoShown_def initialApp_def Let_def
  have a: "step ClickVideo initialApp = ?A"
    by (simp add: defs)
  have b: "step (ChooseVideo (Some (''belt.mp4'', True, ''blob:1''))) ?A = ?B"
    by (simp add: defs handleVideoChange_def)
  have c: "step (ClickWebcam (Inr [1, 2])) ?B = ?C"
    by (simp add: defs startWebcam_def)
  have d: "step ClickStopWebcam ?C = ?D"
    by (simp add: defs stopWebcam_def freshVideo_def)
  have n: "step (ClickWebcam (Inr [1, 2])) initialApp = ?N"
    by (simp add: defs startWebcam_def)
  have loaded: "run [ClickVideo, ChooseVideo (Some (''belt.mp4'', True, ''blob:1''))]
                  initialApp = ?B"
    by (simp only: run.simps a b)
  show ?thesis
    unfolding Let_def loaded c d n
    by (simp add: freshVideo_def) (simp add: initialApp_def)
qed

section \<open>Stopping the sampler\<close>

text \<open>
  C6, at an input where the code departs from it. A video is loaded and played, then
  the user leaves video mode with the upload button while the video plays on (the file
  video element stays rendered). The effect's own interval is cleared, but the interval
  that \<^verbatim>\<open>startFrameCapture\<close> created on play is still running, and in three cadence
  periods it captures and posts three frames. After a pause instead of the mode change
  the same interval is still pending, although it captures nothing while the video is
  paused.
\<close>

theorem play_interval_survives_stop:
  "(let loaded = run [ClickVideo, ChooseVideo (Some (''belt.mp4'', True, ''blob:1'')),
                      Rebind (Some \<lparr> paused = True, srcObject = None, currentTime = 0 \<rparr>)]
                   initialApp;
        playing = step PlayVideo loaded;
        left = step ClickUpload playing;
        halted = step PauseVideo playing
    in fileVideoShown loaded \<and> fileVideoShown left \<and>
       intervals loaded = [] \<and>
       intervals playing = [(1, PlayTick), (2, VideoTick)] \<and>
       effectInterval playing = Some 2 \<and>
       mode left = Upload \<and>
       intervals left = [(1, PlayTick)] \<and>
       posted left = 0 \<and>
       posted (advanceBy 3 left) = 3 \<and>
       \<not> isPlaying halted \<and>
       intervals halted = [(1, PlayTick)] \<and>
       posted (advanceBy 3 halted) = 0)"
proof -
  let ?el = "\<lparr> paused = True, srcObject = None, currentTime = 0 \<rparr>"
  let ?pl = "\<lparr> paused = False, srcObject = None, currentTime = 0 \<rparr>"
  let ?A = "initialApp\<lparr>mode := Video\<rparr>"
  let ?B = "initialApp\<lparr>mode := Video, videoFile := Some ''belt.mp4'',
              videoUrl := Some ''blob:1'', videoRef := Some ?el\<rparr>"
  let ?C = "initialApp\<lparr>mode := Video, videoFile := Some ''belt.mp4'',
              videoUrl := Some ''blob:1'', videoRef := Some ?pl, isPlaying := True,
              intervals := [(1, PlayTick), (2, VideoTick)], nextInterval := 3,
              effectInterval := Some 2\<rparr>"
  let ?D = "initialApp\<lparr>mode := Upload, videoFile := Some ''belt.mp4'',
              videoUrl := Some ''blob:1'', videoRef := Some ?pl, isPlaying := True,
              intervals := [(1, PlayTick)], nextInterval := 3,
              effectInterval := None\<rparr>"
  let ?E = "initialApp\<lparr>mode := Video, videoFile := Some ''belt.mp4'',
              videoUrl := Some ''blob:1'', videoRef := Some ?el, isPlaying := False,
              intervals := [(1, PlayTick)], nextInterval := 3,
              effectInterval := None\<rparr>"
  note defs = step_def commit_def deps_def samplingEffect_def effectCleanup_def
    clearInterval_def setInterval_def rebind_def freshVideo_def fileVideoShown_def
    initialApp_def Let_def
  have a: "step ClickVideo initialApp = ?A"
    by (simp add: defs)
  have b: "step (ChooseVideo (Some (''belt.mp4'', True, ''blob:1''))) ?A = ?B"
    by (simp add: defs handleVideoChange_def)
  have b': "step (Rebind (Some ?el)) ?B = ?B"
    by (simp add: defs)
  have c: "step PlayVideo ?B = ?C"
    by (simp add: defs handleVideoPlay_def startFrameCapture_def setPaused_def)
  have d: "step ClickUpload ?C = ?D"
    by (simp add: defs)
  have e: "step PauseVideo ?C = ?E"
    by (simp add: defs handleVideoPause_def setPaused_def)
  have tickD: "advance (?D\<lparr>loading := l, posted := n\<rparr>) =
      ?D\<lparr>loading := True, posted := n + 1\<rparr>" for l n
    by (simp add: advance_def captureAndAnalyzeFrame_def sendFrame_begin_def initialApp_def)
  have d3: "posted (advanceBy 3 ?D) = 3"
  proof -
    have "?D = ?D\<lparr>loading := False, posted := 0\<rparr>"
      by (simp add: initialApp_def)
    then have "advanceBy 3 ?D = advanceBy (Suc (Suc (Suc 0))) (?D\<lparr>loading := False, posted := 0\<rparr>)"
      by (simp only: numeral_3_eq_3)
    also have "\<dots> = ?D\<lparr>loading := True, posted := 0 + 1 + 1 + 1\<rparr>"
      by (simp only: advanceBy.simps tickD)
    finally show ?thesis by simp
  qed
  have tickE: "advance ?E = ?E"
    by (simp add: advance_def initialApp_def)
  have e3: "posted (advanceBy 3 ?E) = 0"
  proof -
    have "advanceBy (Suc (Suc (Suc 0))) ?E = ?E"
      by (simp only: advanceBy.simps tickE)
    then have "advanceBy 3 ?E = ?E"
      by (simp only: numeral_3_eq_3)
    then show ?thesis by (simp add: initialApp_def)
  qed
  have loaded: "run [ClickVideo, ChooseVideo (Some (''belt.mp4'', True, ''blob:1'')),
                     Rebind (Some ?el)] initialApp = ?B"
    by (simp only: run.simps a b b')
  show ?thesis
    unfolding Let_def loaded c d e
    using d3 e3 by (simp add: fileVideoShown_def) (simp add: initialApp_def)
qed

end
